theory Spec2Isabelle
  imports Complex_Main
begin

section \<open>JavaScript values used by the engine\<close>

text \<open>
  A JavaScript \<open>number\<close> is modelled by an exact rational. Every quantity the engine and
  the trackers compute is a count, a sum of scores or a quotient of the two, so the model
  agrees with the double arithmetic of the source wherever the stored scores are integers
  of ordinary size; the two thresholds \<open>words.length * 0.05\<close> and \<open>words.length * 0.08\<close>
  are compared with a count, and such a product is never within rounding distance of an
  integer it does not equal. The one non-finite value the code produces on purpose,
  \<open>0 / 0 = NaN\<close> for the mean of an empty slice, is written out as a branch where it
  occurs. The exact quotient can differ from the doubles of the source in one field,
  \<open>wordsPerMinute\<close>, which divides twice (the duration by 60, then the word count by
  the result) before rounding: 23 words in 184 seconds give 7 in the source and 8 here.
  No score depends on that field.

  A string is a list of code units; the model covers the code units below 256 (Latin-1),
  which is the type \<^typ>\<open>char\<close>.
\<close>

type_synonym number = rat

definition Math_round :: "number \<Rightarrow> int" where
  \<comment> \<open>\<open>Math.round\<close>: the nearest integer, a half rounded towards plus infinity.\<close>
  "Math_round x = \<lfloor>x + 1 / 2\<rfloor>"

definition or0 :: "number \<Rightarrow> number" where
  \<comment> \<open>\<open>x || 0\<close> on a finite number: the falsy number \<open>0\<close> is replaced by \<open>0\<close>.\<close>
  "or0 x = (if x = 0 then 0 else x)"

definition slice :: "int \<Rightarrow> int option \<Rightarrow> 'a list \<Rightarrow> 'a list" where
  \<comment> \<open>\<open>Array.prototype.slice(start, end)\<close>; \<open>None\<close> is an omitted \<open>end\<close>.\<close>
  "slice start stop xs =
     (let len = int (length xs);
          k = (if start < 0 then max (len + start) 0 else min start len);
          final = (case stop of
                     None \<Rightarrow> len
                   | Some e \<Rightarrow> if e < 0 then max (len + e) 0 else min e len)
      in take (nat (final - k)) (drop (nat k) xs))"

subsection \<open>Characters and strings\<close>

definition isWhiteSpace :: "char \<Rightarrow> bool" where
  \<comment> \<open>the class \<open>\s\<close>, which is also what \<open>trim\<close> strips: TAB, LF, VT, FF, CR, SP, NBSP\<close>
  "isWhiteSpace c = (let n = (of_char c :: nat) in
     n = 9 \<or> n = 10 \<or> n = 11 \<or> n = 12 \<or> n = 13 \<or> n = 32 \<or> n = 160)"

definition isDigit :: "char \<Rightarrow> bool" where
  "isDigit c = (let n = (of_char c :: nat) in 48 \<le> n \<and> n \<le> 57)"

definition isUpperAscii :: "char \<Rightarrow> bool" where
  "isUpperAscii c = (let n = (of_char c :: nat) in 65 \<le> n \<and> n \<le> 90)"

definition isLowerAscii :: "char \<Rightarrow> bool" where
  "isLowerAscii c = (let n = (of_char c :: nat) in 97 \<le> n \<and> n \<le> 122)"

definition isWordChar :: "char \<Rightarrow> bool" where
  \<comment> \<open>the class \<open>\w\<close> that decides \<open>\b\<close>\<close>
  "isWordChar c = (isUpperAscii c \<or> isLowerAscii c \<or> isDigit c \<or> c = CHR ''_'')"

definition toLowerCase_char :: "char \<Rightarrow> char" where
  "toLowerCase_char c = (let n = (of_char c :: nat) in
     if (65 \<le> n \<and> n \<le> 90) \<or> (192 \<le> n \<and> n \<le> 222 \<and> n \<noteq> 215)
     then char_of (n + 32) else c)"

definition toLowerCase :: "string \<Rightarrow> string" where
  "toLowerCase s = map toLowerCase_char s"

definition canonicalize :: "char \<Rightarrow> char" where
  \<comment> \<open>the case folding of a pattern with the \<open>i\<close> flag: only ASCII letters fold\<close>
  "canonicalize c = (if isLowerAscii c then char_of ((of_char c :: nat) - 32) else c)"

definition trim :: "string \<Rightarrow> string" where
  "trim s = rev (dropWhile isWhiteSpace (rev (dropWhile isWhiteSpace s)))"

fun startsWith :: "string \<Rightarrow> string \<Rightarrow> bool" where
  "startsWith s [] = True"
| "startsWith [] (p # ps) = False"
| "startsWith (c # cs) (p # ps) = (c = p \<and> startsWith cs ps)"

fun includes_str :: "string \<Rightarrow> string \<Rightarrow> bool" where
  \<comment> \<open>\<open>s.includes(p)\<close>\<close>
  "includes_str [] p = (p = [])"
| "includes_str (c # cs) p = (startsWith (c # cs) p \<or> includes_str cs p)"

fun split_runs :: "(char \<Rightarrow> bool) \<Rightarrow> bool \<Rightarrow> string \<Rightarrow> string \<Rightarrow> string list" where
  \<comment> \<open>\<open>s.split(/[...]+/)\<close>: the pieces between the maximal runs of separators; the flag
      says that the previous code unit was a separator, the third argument is the
      current piece, reversed\<close>
  "split_runs sep inrun cur [] = [rev cur]"
| "split_runs sep inrun cur (c # cs) =
     (if sep c then
        (if inrun then split_runs sep True [] cs
         else rev cur # split_runs sep True [] cs)
      else split_runs sep False (c # cur) cs)"

definition split_regex :: "(char \<Rightarrow> bool) \<Rightarrow> string \<Rightarrow> string list" where
  "split_regex sep s = split_runs sep False [] s"

fun split_at :: "char \<Rightarrow> string \<Rightarrow> string \<Rightarrow> string list" where
  "split_at d cur [] = [rev cur]"
| "split_at d cur (c # cs) =
     (if c = d then rev cur # split_at d [] cs else split_at d (c # cur) cs)"

definition split_char :: "char \<Rightarrow> string \<Rightarrow> string list" where
  \<comment> \<open>\<open>s.split(',')\<close> for a one-character separator\<close>
  "split_char d s = split_at d [] s"

subsection \<open>The regular expressions of the engine\<close>

fun matches_ci :: "string \<Rightarrow> string \<Rightarrow> bool" where
  \<comment> \<open>the literal \<open>p\<close> matches at the start of the text, letter case ignored\<close>
  "matches_ci [] s = True"
| "matches_ci (p # ps) [] = False"
| "matches_ci (p # ps) (c # cs) = (canonicalize c = canonicalize p \<and> matches_ci ps cs)"

fun test_alternatives :: "string list \<Rightarrow> string \<Rightarrow> bool" where
  \<comment> \<open>\<open>/a|b|c/i.test(s)\<close>: some alternative matches at some position\<close>
  "test_alternatives alts [] = list_ex (\<lambda>p. p = []) alts"
| "test_alternatives alts (c # cs) =
     (list_ex (\<lambda>p. matches_ci p (c # cs)) alts \<or> test_alternatives alts cs)"

fun test_digit :: "string \<Rightarrow> bool" where
  \<comment> \<open>\<open>/\d/.test(s)\<close>\<close>
  "test_digit [] = False"
| "test_digit (c # cs) = (isDigit c \<or> test_digit cs)"

definition head_char :: "string \<Rightarrow> char option" where
  "head_char s = (case s of [] \<Rightarrow> None | c # _ \<Rightarrow> Some c)"

definition is_boundary :: "char option \<Rightarrow> char option \<Rightarrow> bool" where
  \<comment> \<open>\<open>\b\<close> between two neighbours; \<open>None\<close> is the edge of the text\<close>
  "is_boundary a b =
     ((case a of None \<Rightarrow> False | Some c \<Rightarrow> isWordChar c) \<noteq>
      (case b of None \<Rightarrow> False | Some c \<Rightarrow> isWordChar c))"

definition word_match_at :: "string list \<Rightarrow> char option \<Rightarrow> string \<Rightarrow> nat option" where
  \<comment> \<open>\<open>\b(a|b|c)\b\<close> tried at one position, \<open>prev\<close> the code unit before it: the length
      of the first alternative that matches between two boundaries\<close>
  "word_match_at alts prev s =
     map_option length
       (find (\<lambda>p. matches_ci p s \<and> is_boundary prev (head_char s) \<and>
                  is_boundary (if p = [] then prev else Some (s ! (length p - 1)))
                              (head_char (drop (length p) s)))
             alts)"

fun count_word_matches :: "string list \<Rightarrow> char option \<Rightarrow> nat \<Rightarrow> string \<Rightarrow> nat" where
  \<comment> \<open>the number of matches of \<open>s.match(/\b(a|b|c)\b/gi)\<close>, scanning from the left;
      \<open>skip\<close> code units still belong to the match found last\<close>
  "count_word_matches alts prev skip [] =
     (if skip = 0 \<and> word_match_at alts prev [] \<noteq> None then 1 else 0)"
| "count_word_matches alts prev skip (c # cs) =
     (if 0 < skip then count_word_matches alts (Some c) (skip - 1) cs
      else (case word_match_at alts prev (c # cs) of
              Some n \<Rightarrow> 1 + count_word_matches alts (Some c) (n - 1) cs
            | None \<Rightarrow> count_word_matches alts (Some c) 0 cs))"

definition match_words :: "string list \<Rightarrow> string \<Rightarrow> nat" where
  "match_words alts s = count_word_matches alts None 0 s"

section \<open>The analysis engine (src/utils/analysisEngine.ts)\<close>

record AnalysisMetrics =
  wordsPerMinute :: number
  fillerWords :: number
  confidenceScore :: number
  clarityScore :: number
  professionalismScore :: number
  relevanceScore :: number

record AnalysisFeedback =
  strengths :: "string list"
  improvements :: "string list"
  suggestions :: "string list"

record AnalysisResult =
  transcript :: string
  duration :: number
  metrics :: AnalysisMetrics
  feedback :: AnalysisFeedback
  aiPowered :: bool

definition truthy :: "string option \<Rightarrow> bool" where
  \<comment> \<open>an optional string used as a condition: \<open>undefined\<close> and \<open>""\<close> are falsy\<close>
  "truthy q = (case q of None \<Rightarrow> False | Some s \<Rightarrow> s \<noteq> [])"

definition words_of :: "string \<Rightarrow> string list" where
  "words_of t = filter (\<lambda>word. 0 < length word) (split_regex isWhiteSpace (toLowerCase t))"

definition fillerWordList :: "string list" where
  "fillerWordList = [''um'', ''uh'', ''like'', ''you know'', ''so'', ''actually'', ''basically'']"

definition fillerWordCount_of :: "string list \<Rightarrow> nat" where
  "fillerWordCount_of ws =
     length (filter (\<lambda>word. list_ex (\<lambda>filler. includes_str word filler) fillerWordList) ws)"

definition isSentenceEnd :: "char \<Rightarrow> bool" where
  "isSentenceEnd c = (c = CHR ''.'' \<or> c = CHR ''!'' \<or> c = CHR ''?'')"

definition sentenceCount_of :: "string \<Rightarrow> nat" where
  "sentenceCount_of t =
     length (filter (\<lambda>s. 0 < length (trim s)) (split_regex isSentenceEnd t))"

definition complexSentences_of :: "string \<Rightarrow> nat" where
  "complexSentences_of t =
     length (filter (\<lambda>s. 2 < length (split_char CHR '','' s)) (split_regex isSentenceEnd t))"

definition hasNumbers_of :: "string \<Rightarrow> bool" where
  "hasNumbers_of t = test_digit t"

definition hasExamples_of :: "string \<Rightarrow> bool" where
  "hasExamples_of t =
     test_alternatives [''example'', ''instance'', ''case'', ''situation'', ''experience''] t"

definition hasActionWords_of :: "string \<Rightarrow> bool" where
  "hasActionWords_of t =
     test_alternatives [''achieved'', ''accomplished'', ''led'', ''managed'', ''created'',
                        ''improved'', ''developed''] t"

definition questionWords_of :: "string \<Rightarrow> nat" where
  "questionWords_of t = match_words [''what'', ''when'', ''where'', ''why'', ''how'', ''who''] t"

definition businessWords_of :: "string \<Rightarrow> nat" where
  "businessWords_of t =
     match_words [''experience'', ''skills'', ''project'', ''team'', ''challenge'', ''solution''] t"

definition casualWords_of :: "string \<Rightarrow> nat" where
  "casualWords_of t = match_words [''awesome'', ''cool'', ''stuff'', ''things''] t"

definition avgWordsPerSentence_of :: "string \<Rightarrow> number" where
  "avgWordsPerSentence_of t =
     of_nat (length (words_of t)) / of_nat (max (sentenceCount_of t) 1)"

definition confidence_raw :: "string \<Rightarrow> number" where
  "confidence_raw t =
     (let n = length (words_of t); fc = fillerWordCount_of (words_of t);
          avg = avgWordsPerSentence_of t
      in 50
         + (if hasExamples_of t then 15 else 0)
         + (if hasActionWords_of t then 10 else 0)
         + (if hasNumbers_of t then 10 else 0)
         + (if of_nat fc < of_nat n * (5 / 100 :: number) then 15 else 0)
         + (if 8 < avg \<and> avg < 20 then 10 else 0))"

definition clarity_raw :: "string \<Rightarrow> number" where
  "clarity_raw t =
     (let n = length (words_of t); fc = fillerWordCount_of (words_of t);
          avg = avgWordsPerSentence_of t
      in 50
         + (if 2 < sentenceCount_of t then 15 else 0)
         + (if 6 < avg \<and> avg < 25 then 20 else 0)
         + (if 0 < complexSentences_of t then 10 else 0)
         + (if of_nat fc < of_nat n * (8 / 100 :: number) then 15 else 0))"

definition professionalism_raw :: "string \<Rightarrow> number" where
  "professionalism_raw t =
     60
     + (if 0 < businessWords_of t then 15 else 0)
     + (if hasActionWords_of t then 15 else 0)
     + (if \<not> 0 < casualWords_of t then 10 else 0)
     + (if hasNumbers_of t then 5 else 0)"

definition relevance_raw :: "string \<Rightarrow> number" where
  "relevance_raw t =
     50
     + (if hasExamples_of t then 20 else 0)
     + (if hasNumbers_of t then 15 else 0)
     + (if hasActionWords_of t then 10 else 0)
     + (if 50 < length (words_of t) then 10 else 0)
     + (if questionWords_of t = 0 then 5 else 0)"

definition basicStrengths :: "string \<Rightarrow> string list" where
  "basicStrengths t =
     (let n = length (words_of t); fc = fillerWordCount_of (words_of t) in
      [if 100 < n then ''Comprehensive response with good detail''
       else ''Concise and focused response'',
       if hasExamples_of t then ''Used specific examples to support points''
       else ''Clear communication style'',
       if of_nat fc < of_nat n * (5 / 100 :: number) then ''Minimal use of filler words''
       else ''Generally clear delivery'',
       if 8 < avgWordsPerSentence_of t then ''Well-structured sentences''
       else ''Concise expression''])"

definition basicImprovements :: "string \<Rightarrow> string list" where
  "basicImprovements t =
     (let n = length (words_of t); fc = fillerWordCount_of (words_of t) in
      [if \<not> hasExamples_of t then ''Include more specific examples to illustrate points''
       else ''Continue providing concrete examples'',
       if of_nat n * (8 / 100 :: number) < of_nat fc
       then ''Reduce filler words for more polished delivery''
       else ''Maintain clear speaking pattern'',
       if \<not> hasNumbers_of t then ''Add quantifiable results when possible''
       else ''Good use of specific data'',
       if n < 50 then ''Provide more detailed responses''
       else ''Consider organizing longer responses better''])"

definition basicSuggestions :: "string option \<Rightarrow> string list" where
  "basicSuggestions questionType =
     [''Configure AI services (OpenAI API key) for advanced analysis and personalized feedback''
        @ (if truthy questionType then '' for '' @ the questionType @ '' questions'' else ''''),
      ''Practice the STAR method (Situation, Task, Action, Result) for structured responses'',
      ''Record practice sessions to track improvement over time'',
      ''Focus on incorporating specific metrics and achievements in your responses'']"

definition createBasicAnalysis :: "string \<Rightarrow> number \<Rightarrow> string option \<Rightarrow> AnalysisResult" where
  "createBasicAnalysis t d questionType =
     (let durationInMinutes = max (d / 60) 1;
          n = length (words_of t)
      in \<lparr> transcript = t,
           duration = d,
           metrics = \<lparr>
             wordsPerMinute = of_int (Math_round (of_nat n / durationInMinutes)),
             fillerWords = of_nat (fillerWordCount_of (words_of t)),
             confidenceScore = of_int (Math_round (min (confidence_raw t) 100)),
             clarityScore = of_int (Math_round (min (clarity_raw t) 100)),
             professionalismScore = of_int (Math_round (min (professionalism_raw t) 100)),
             relevanceScore = of_int (Math_round (min (relevance_raw t) 100)) \<rparr>,
           feedback = \<lparr>
             strengths = basicStrengths t,
             improvements = basicImprovements t,
             suggestions = basicSuggestions questionType \<rparr>,
           aiPowered = False \<rparr>)"

definition createFallbackAnalysis :: "number \<Rightarrow> string option \<Rightarrow> AnalysisResult" where
  "createFallbackAnalysis d questionType =
     \<lparr> transcript = ''No transcript available. Please ensure your microphone is working and speech recognition is enabled.'',
       duration = d,
       metrics = \<lparr>
         wordsPerMinute = 0,
         fillerWords = 0,
         confidenceScore = 0,
         clarityScore = 0,
         professionalismScore = 0,
         relevanceScore = 0 \<rparr>,
       feedback = \<lparr>
         strengths = [''Recording session completed''],
         improvements = [
           ''No audio content detected for analysis'',
           ''Ensure microphone permissions are granted'',
           ''Check if browser supports speech recognition''],
         suggestions = [
           ''Test microphone before recording'',
           ''Speak clearly and at normal volume'',
           ''Try recording in a quiet environment'',
           ''Configure AI services for advanced analysis''
             @ (if truthy questionType then '' of '' @ the questionType @ '' questions'' else '''')] \<rparr>,
       aiPowered = False \<rparr>"


subsection \<open>The dispatcher\<close>

text \<open>
  \<open>analyzeInterview\<close> reads the configuration, may call the remote client and writes to
  the console. The configuration and the remote client are the environment; what the call
  did is returned as a list of events next to the result. The promise the source returns
  is always fulfilled (the only call that can reject is inside \<open>try\<close>), so the result is
  total. A console event carries the text of the line; the pictograph that opens some
  lines and the error object printed after the text of an error line are left out.
\<close>

datatype event =
    Console_log string
  | Console_warn string
  | Console_error string
  | AI_request string number "string option"

record Env =
  apiKey :: "string option"
  openaiClient_analyzeInterview ::
    "string \<Rightarrow> number \<Rightarrow> string option \<Rightarrow> string + (AnalysisMetrics \<times> AnalysisFeedback)"

definition isConfigured :: "Env \<Rightarrow> bool" where
  "isConfigured env =
     (truthy (apiKey env) \<and> apiKey env \<noteq> Some ''your_openai_api_key_here'')"

definition analyzeInterview ::
  "Env \<Rightarrow> string \<Rightarrow> number \<Rightarrow> string option \<Rightarrow> event list \<times> AnalysisResult" where
  "analyzeInterview env t d questionType =
     (if t = [] \<or> length (trim t) = 0 then ([], createFallbackAnalysis d questionType)
      else if isConfigured env then
        (case openaiClient_analyzeInterview env t d questionType of
           Inr (m, f) \<Rightarrow>
             ([Console_log ''Using enhanced OpenAI client for interview analysis...'',
               AI_request t d questionType],
              \<lparr> transcript = t, duration = d, metrics = m, feedback = f, aiPowered = True \<rparr>)
         | Inl err \<Rightarrow>
             ([Console_log ''Using enhanced OpenAI client for interview analysis...'',
               AI_request t d questionType,
               Console_error ''AI Analysis failed, falling back to basic analysis:''],
              createBasicAnalysis t d questionType))
      else
        ([Console_warn ''AI services not configured. Using basic rule-based analysis.''],
         createBasicAnalysis t d questionType))"

definition in_range :: "number \<Rightarrow> bool" where
  "in_range x = (0 \<le> x \<and> x \<le> 100)"

section \<open>The browser's key-value store and console\<close>

text \<open>
  \<open>localStorage\<close> maps a key to a text. A tracker only ever reads its own key, and reads it
  through \<open>data ? JSON.parse(data) : []\<close>, so the model keeps a stored text by what that
  expression does with it: \<open>Json_array xs\<close> is the text \<open>JSON.stringify\<close> writes for the
  session list \<open>xs\<close> (and \<open>JSON.parse\<close> reads back as \<open>xs\<close>); \<open>Text t\<close> is any other
  text \<open>t\<close>: the empty text, or one that \<open>JSON.parse\<close> rejects with a \<open>SyntaxError\<close>.
  The two trackers use different keys and different record types; each has a store of its
  own type. The store is taken to accept every write. A text that \<open>JSON.parse\<close> accepts
  but that is not an array of records (\<open>null\<close>, \<open>42\<close>, \<open>{}\<close>) has no value in this
  type: the source returns what it parsed and its callers fail on it.
\<close>

datatype 'a stored = Text string | Json_array "'a list"

record 'a Browser =
  localStorage :: "string \<rightharpoonup> 'a stored"
  console :: "event list"

definition getItem :: "'a Browser \<Rightarrow> string \<Rightarrow> 'a stored option" where
  "getItem w key = localStorage w key"

definition setItem :: "string \<Rightarrow> 'a stored \<Rightarrow> 'a Browser \<Rightarrow> 'a Browser" where
  "setItem key v w = w\<lparr>localStorage := (localStorage w)(key \<mapsto> v)\<rparr>"

definition removeItem :: "string \<Rightarrow> 'a Browser \<Rightarrow> 'a Browser" where
  "removeItem key w = w\<lparr>localStorage := (localStorage w)(key := None)\<rparr>"

definition emit :: "event \<Rightarrow> 'a Browser \<Rightarrow> 'a Browser" where
  "emit e w = w\<lparr>console := console w @ [e]\<rparr>"

definition load_sessions :: "string \<Rightarrow> string \<Rightarrow> 'a Browser \<Rightarrow> 'a list \<times> 'a Browser" where
  \<comment> \<open>the body both \<open>getAllSessions\<close> share, up to the key and the text of the log line:
      \<open>try { data = getItem(key); return data ? JSON.parse(data) : [] }
        catch (error) { console.error(msg, error); return [] }\<close>\<close>
  "load_sessions key msg w =
     (case getItem w key of
        None \<Rightarrow> ([], w)
      | Some (Text t) \<Rightarrow> if t = [] then ([], w) else ([], emit (Console_error msg) w)
      | Some (Json_array xs) \<Rightarrow> (xs, w))"

fun insert_cmp :: "('a \<Rightarrow> 'a \<Rightarrow> number) \<Rightarrow> 'a \<Rightarrow> 'a list \<Rightarrow> 'a list" where
  "insert_cmp cmp x [] = [x]"
| "insert_cmp cmp x (y # ys) =
     (if cmp x y \<le> 0 then x # y # ys else y # insert_cmp cmp x ys)"

definition Array_sort :: "('a \<Rightarrow> 'a \<Rightarrow> number) \<Rightarrow> 'a list \<Rightarrow> 'a list" where
  \<comment> \<open>\<open>xs.sort(cmp)\<close> for a consistent comparator: a stable sort in which
      \<open>cmp a b > 0\<close> puts \<open>b\<close> before \<open>a\<close>\<close>
  "Array_sort cmp xs = foldr (insert_cmp cmp) xs []"

definition sum_of :: "('a \<Rightarrow> number) \<Rightarrow> 'a list \<Rightarrow> number" where
  \<comment> \<open>\<open>xs.reduce((sum, s) => sum + f(s), 0)\<close>\<close>
  "sum_of f xs = foldl (\<lambda>sum s. sum + f s) 0 xs"

section \<open>The basic tracker (ProgressTrackingService)\<close>

record InterviewSession =
  id_field :: string
  date :: string
  duration :: number
  transcript :: string
  overallScore :: number
  metrics :: AnalysisMetrics
  aiPowered :: bool
  questionType :: "string option"

record ProgressStats =
  totalSessions :: nat
  averageScore :: int
  improvementTrend :: int
  strongestAreas :: "string list"
  weakestAreas :: "string list"
  recentSessions :: "InterviewSession list"

definition progress_storageKey :: string where
  "progress_storageKey = ''interview_progress_data''"

definition progress_getAllSessions ::
  "InterviewSession Browser \<Rightarrow> InterviewSession list \<times> InterviewSession Browser" where
  "progress_getAllSessions w =
     load_sessions progress_storageKey ''Error loading progress data:'' w"

definition saveSession ::
  "InterviewSession \<Rightarrow> string \<Rightarrow> string \<Rightarrow> InterviewSession Browser \<Rightarrow> InterviewSession Browser" where
  \<comment> \<open>\<open>newId\<close> and \<open>now\<close> are what \<open>generateId()\<close> and \<open>new Date().toISOString()\<close> give\<close>
  "saveSession session newId now w =
     (let (existingSessions, w1) = progress_getAllSessions w;
          newSession = session\<lparr>id_field := newId, date := now\<rparr>;
          pushed = existingSessions @ [newSession];
          limitedSessions = slice (- 50) None pushed
      in emit (Console_log ''Interview session saved to progress history'')
           (setItem progress_storageKey (Json_array limitedSessions) w1))"

definition avgMetrics ::
  "InterviewSession list \<Rightarrow> (string \<times> number) list" where
  "avgMetrics sessions =
     (let totalSessions = of_nat (length sessions) in
      [(''confidence'', sum_of (\<lambda>s. confidenceScore (metrics s)) sessions / totalSessions),
       (''clarity'', sum_of (\<lambda>s. clarityScore (metrics s)) sessions / totalSessions),
       (''professionalism'', sum_of (\<lambda>s. professionalismScore (metrics s)) sessions / totalSessions),
       (''relevance'', sum_of (\<lambda>s. relevanceScore (metrics s)) sessions / totalSessions)])"

definition sortedAreas :: "InterviewSession list \<Rightarrow> (string \<times> number) list" where
  "sortedAreas sessions = Array_sort (\<lambda>(_, a) (_, b). b - a) (avgMetrics sessions)"

definition firstHalfAvg :: "InterviewSession list \<Rightarrow> number" where
  \<comment> \<open>\<open>sum / halfPoint || 0\<close>: with \<open>halfPoint = 0\<close> the quotient is \<open>0 / 0 = NaN\<close>, falsy\<close>
  "firstHalfAvg sessions =
     (let halfPoint = length sessions div 2 in
      if halfPoint = 0 then 0
      else or0 (sum_of overallScore (slice 0 (Some (int halfPoint)) sessions) / of_nat halfPoint))"

definition secondHalfAvg :: "InterviewSession list \<Rightarrow> number" where
  "secondHalfAvg sessions =
     (let halfPoint = length sessions div 2 in
      sum_of overallScore (slice (int halfPoint) None sessions)
        / of_nat (length sessions - halfPoint))"

definition getProgressStats ::
  "InterviewSession Browser \<Rightarrow> ProgressStats \<times> InterviewSession Browser" where
  "getProgressStats w =
     (let (sessions, w1) = progress_getAllSessions w in
      if length sessions = 0 then
        (\<lparr> totalSessions = 0, averageScore = 0, improvementTrend = 0,
           strongestAreas = [], weakestAreas = [], recentSessions = [] \<rparr>, w1)
      else
        (let totalSessions = length sessions;
             averageScore = sum_of overallScore sessions / of_nat totalSessions;
             improvementTrend = secondHalfAvg sessions - firstHalfAvg sessions
         in (\<lparr> totalSessions = totalSessions,
                averageScore = Math_round averageScore,
                improvementTrend = Math_round improvementTrend,
                strongestAreas = map fst (slice 0 (Some 2) (sortedAreas sessions)),
                weakestAreas = map fst (slice (- 2) None (sortedAreas sessions)),
                recentSessions = rev (slice (- 5) None sessions) \<rparr>, w1)))"

definition progress_clearAllData :: "InterviewSession Browser \<Rightarrow> InterviewSession Browser" where
  "progress_clearAllData w =
     emit (Console_log ''All progress data cleared'') (removeItem progress_storageKey w)"

section \<open>The enhanced tracker (EnhancedProgressService)\<close>

record DetailedMetrics = AnalysisMetrics +
  emotionalIntelligence :: number
  structureScore :: number

record DetailedFeedback = AnalysisFeedback +
  specificTips :: "string list"

record DetailedAnalysis =
  speechPattern :: string
  contentQuality :: string
  professionalPresence :: string
  improvementPlan :: "string list"

record DetailedSession =
  id_field :: string
  date :: string
  duration :: number
  transcript :: string
  questionType :: string
  overallScore :: number
  detailedMetrics :: DetailedMetrics
  feedback :: DetailedFeedback
  detailedAnalysis :: DetailedAnalysis
  aiPowered :: bool
  audioUrl :: "string option"

record SkillEntry =
  current :: int
  trend :: int
  sessionHistory :: "number list"

record Milestones =
  reached :: "string list"
  upcoming :: "string list"

text \<open>
  \<open>calculateAverageScore\<close> divides by the length of its argument; on the empty list the
  quotient is \<open>0 / 0\<close> and the result \<open>NaN\<close>, which is \<open>None\<close> in the model. The two number
  fields of the statistics that come from it carry the same option.
\<close>

record AdvancedProgressStats =
  totalSessions :: nat
  averageScore :: "int option"
  improvementTrend :: "int option"
  skillBreakdown :: "(string \<times> SkillEntry) list"
  recommendedFocus :: "string list"
  achievementBadges :: "string list"
  recentSessions :: "DetailedSession list"
  sessionsByType :: "string \<rightharpoonup> nat"
  progressMilestones :: Milestones

definition enhanced_storageKey :: string where
  "enhanced_storageKey = ''enhanced_interview_progress''"

definition maxSessions :: int where
  "maxSessions = 100"

definition enhanced_getAllSessions ::
  "DetailedSession Browser \<Rightarrow> DetailedSession list \<times> DetailedSession Browser" where
  "enhanced_getAllSessions w =
     load_sessions enhanced_storageKey ''Error loading enhanced progress data:'' w"

definition saveDetailedSession ::
  "DetailedSession \<Rightarrow> string \<Rightarrow> string \<Rightarrow> DetailedSession Browser \<Rightarrow> DetailedSession Browser" where
  "saveDetailedSession session newId now w =
     (let (existingSessions, w1) = enhanced_getAllSessions w;
          newSession = session\<lparr>id_field := newId, date := now\<rparr>;
          pushed = existingSessions @ [newSession];
          limitedSessions = slice (- maxSessions) None pushed
      in emit (Console_log ''Enhanced session data saved'')
           (setItem enhanced_storageKey (Json_array limitedSessions) w1))"

definition calculateAverageScore :: "DetailedSession list \<Rightarrow> int option" where
  "calculateAverageScore sessions =
     (if length sessions = 0 then None
      else Some (Math_round (sum_of overallScore sessions / of_nat (length sessions))))"

definition calculateImprovementTrend :: "DetailedSession list \<Rightarrow> int option" where
  "calculateImprovementTrend sessions =
     (if length sessions < 4 then Some 0
      else
        (let quarterPoint = int (length sessions div 4);
             recentSessions = slice (- quarterPoint) None sessions;
             earlierSessions = slice quarterPoint (Some (quarterPoint * 2)) sessions
         in case (calculateAverageScore recentSessions, calculateAverageScore earlierSessions) of
              (Some recentAvg, Some earlierAvg) \<Rightarrow>
                Some (Math_round (of_int recentAvg - of_int earlierAvg))
            | _ \<Rightarrow> None))"

definition skills :: "string list" where
  "skills = [''confidenceScore'', ''clarityScore'', ''professionalismScore'', ''relevanceScore'',
             ''emotionalIntelligence'', ''structureScore'']"

definition metric_of :: "string \<Rightarrow> DetailedMetrics \<Rightarrow> number" where
  \<comment> \<open>\<open>m[skill] || 0\<close>\<close>
  "metric_of skill m =
     (case map_of [(''wordsPerMinute'', wordsPerMinute m), (''fillerWords'', fillerWords m),
                   (''confidenceScore'', confidenceScore m), (''clarityScore'', clarityScore m),
                   (''professionalismScore'', professionalismScore m),
                   (''relevanceScore'', relevanceScore m),
                   (''emotionalIntelligence'', emotionalIntelligence m),
                   (''structureScore'', structureScore m)] skill of
        None \<Rightarrow> 0
      | Some v \<Rightarrow> or0 v)"

definition mean_or0 :: "number list \<Rightarrow> number" where
  \<comment> \<open>\<open>xs.reduce((a, b) => a + b, 0) / xs.length || 0\<close>: \<open>NaN\<close> on the empty list, falsy\<close>
  "mean_or0 xs =
     (if length xs = 0 then 0 else or0 (sum_of (\<lambda>b. b) xs / of_nat (length xs)))"

definition skillEntry :: "DetailedSession list \<Rightarrow> string \<Rightarrow> SkillEntry" where
  "skillEntry sessions skill =
     (let scores = map (\<lambda>s. metric_of skill (detailedMetrics s)) sessions;
          current = (if 0 < length scores then scores ! (length scores - 1) else 0);
          recent = slice (- 5) None scores;
          earlier = slice (- 10) (Some (- 5)) scores;
          trend = Math_round (mean_or0 recent - mean_or0 earlier)
      in \<lparr> current = Math_round current, trend = trend,
           sessionHistory = slice (- 10) None scores \<rparr>)"

definition calculateSkillBreakdown :: "DetailedSession list \<Rightarrow> (string \<times> SkillEntry) list" where
  "calculateSkillBreakdown sessions = map (\<lambda>skill. (skill, skillEntry sessions skill)) skills"

definition formatSkillName :: "string \<Rightarrow> string" where
  \<comment> \<open>\<open>mapping[skill] || skill\<close>\<close>
  "formatSkillName skill =
     (case map_of [(''confidenceScore'', ''Confidence''), (''clarityScore'', ''Clarity''),
                   (''professionalismScore'', ''Professionalism''),
                   (''relevanceScore'', ''Relevance''),
                   (''emotionalIntelligence'', ''Emotional Intelligence''),
                   (''structureScore'', ''Response Structure'')] skill of
        None \<Rightarrow> skill
      | Some name \<Rightarrow> name)"

definition getRecommendedFocus :: "(string \<times> SkillEntry) list \<Rightarrow> string list" where
  "getRecommendedFocus breakdown =
     map (\<lambda>(skill, _). formatSkillName skill)
       (slice 0 (Some 2)
          (Array_sort (\<lambda>(_, a) (_, b). of_int (current a) - of_int (current b)) breakdown))"

definition consistentImprover :: "DetailedSession list \<Rightarrow> bool" where
  \<comment> \<open>\<open>sessions.slice(-5).every(s => s.overallScore > s.overallScore)\<close>\<close>
  "consistentImprover sessions =
     list_all (\<lambda>s. overallScore s > overallScore s) (slice (- 5) None sessions)"

definition calculateAchievements :: "DetailedSession list \<Rightarrow> string list" where
  "calculateAchievements sessions =
     (if 5 \<le> length sessions then [''Committed Practicer''] else [])
     @ (if 15 \<le> length sessions then [''Interview Master''] else [])
     @ (if list_ex (\<lambda>s. 90 \<le> overallScore s) sessions then [''Excellence Achieved''] else [])
     @ (if consistentImprover sessions then [''Consistent Improver''] else [])
     @ (if 10 \<le> length (filter aiPowered sessions) then [''AI-Powered Learner''] else [])"

definition countType :: "(string \<rightharpoonup> nat) \<Rightarrow> DetailedSession \<Rightarrow> (string \<rightharpoonup> nat)" where
  \<comment> \<open>\<open>type = session.questionType || 'General'; types[type] = (types[type] || 0) + 1\<close>;
      a question type that names a property every object inherits (\<open>constructor\<close>) is
      counted from 0 here, while the source starts from the inherited value\<close>
  "countType types session =
     (let type = (if questionType session = [] then ''General'' else questionType session)
      in types(type \<mapsto> (case types type of None \<Rightarrow> 0 | Some n \<Rightarrow> n) + 1))"

definition getSessionsByType :: "DetailedSession list \<Rightarrow> (string \<rightharpoonup> nat)" where
  "getSessionsByType sessions = foldl countType Map.empty sessions"

fun toString_nat :: "nat \<Rightarrow> string" where
  \<comment> \<open>the decimal digits of a count, as a template literal prints it\<close>
  "toString_nat n =
     (if n < 10 then [char_of (48 + n)]
      else toString_nat (n div 10) @ [char_of (48 + n mod 10)])"

declare toString_nat.simps [simp del]

definition ge_num :: "int option \<Rightarrow> int \<Rightarrow> bool" where
  \<comment> \<open>\<open>a >= b\<close>: false when \<open>a\<close> is \<open>NaN\<close>\<close>
  "ge_num a b = (case a of None \<Rightarrow> False | Some x \<Rightarrow> b \<le> x)"

definition lt_num :: "int option \<Rightarrow> int \<Rightarrow> bool" where
  \<comment> \<open>\<open>a < b\<close>: false when \<open>a\<close> is \<open>NaN\<close>\<close>
  "lt_num a b = (case a of None \<Rightarrow> False | Some x \<Rightarrow> x < b)"

definition getProgressMilestones :: "DetailedSession list \<Rightarrow> Milestones" where
  "getProgressMilestones sessions =
     (let avgScore = calculateAverageScore sessions;
          sessionCount = length sessions
      in \<lparr> reached =
             (if 1 \<le> sessionCount then [''First Interview Practice''] else [])
             @ (if 5 \<le> sessionCount then [''Regular Practicer''] else [])
             @ (if 10 \<le> sessionCount then [''Dedicated Learner''] else [])
             @ (if ge_num avgScore 70 then [''Competent Interviewer''] else [])
             @ (if ge_num avgScore 80 then [''Strong Interviewer''] else [])
             @ (if ge_num avgScore 90 then [''Expert Interviewer''] else []),
           upcoming =
             (if sessionCount < 5
              then [''Complete '' @ toString_nat (5 - sessionCount) @ '' more sessions''] else [])
             @ (if sessionCount < 10 then [''Reach 10 total sessions''] else [])
             @ (if lt_num avgScore 70 then [''Achieve 70% average score''] else [])
             @ (if lt_num avgScore 80 then [''Achieve 80% average score''] else [])
             @ (if lt_num avgScore 90 then [''Achieve 90% average score''] else []) \<rparr>)"

definition getEmptyStats :: AdvancedProgressStats where
  "getEmptyStats =
     \<lparr> totalSessions = 0, averageScore = Some 0, improvementTrend = Some 0,
       skillBreakdown = [], recommendedFocus = [], achievementBadges = [],
       recentSessions = [], sessionsByType = Map.empty,
       progressMilestones =
         \<lparr> reached = [], upcoming = [''Complete your first interview practice''] \<rparr> \<rparr>"

definition getAdvancedStats ::
  "DetailedSession Browser \<Rightarrow> AdvancedProgressStats \<times> DetailedSession Browser" where
  "getAdvancedStats w =
     (let (sessions, w1) = enhanced_getAllSessions w in
      if length sessions = 0 then (getEmptyStats, w1)
      else
        (\<lparr> totalSessions = length sessions,
           averageScore = calculateAverageScore sessions,
           improvementTrend = calculateImprovementTrend sessions,
           skillBreakdown = calculateSkillBreakdown sessions,
           recommendedFocus = getRecommendedFocus (calculateSkillBreakdown sessions),
           achievementBadges = calculateAchievements sessions,
           recentSessions = rev (slice (- 10) None sessions),
           sessionsByType = getSessionsByType sessions,
           progressMilestones = getProgressMilestones sessions \<rparr>, w1))"

definition enhanced_clearAllData :: "DetailedSession Browser \<Rightarrow> DetailedSession Browser" where
  "enhanced_clearAllData w =
     emit (Console_log ''All enhanced progress data cleared'') (removeItem enhanced_storageKey w)"

section \<open>The example of the specification\<close>

definition example_transcript :: string where
  "example_transcript = ''I led a team and achieved a 20% improvement, for example on project X.''"


section \<open>Sample records and statements of the specification\<close>

definition detailed_session_scoring :: "number \<Rightarrow> DetailedSession" where
  \<comment> \<open>a well-formed record of the enhanced tracker with the given overall score\<close>
  "detailed_session_scoring x =
     \<lparr> id_field = ''s1'', date = ''2024-01-01T00:00:00.000Z'', duration = 60,
       transcript = ''An answer.'', questionType = ''General'', overallScore = x,
       detailedMetrics = \<lparr> wordsPerMinute = 120, fillerWords = 0, confidenceScore = x,
         clarityScore = x, professionalismScore = x, relevanceScore = x,
         emotionalIntelligence = x, structureScore = x \<rparr>,
       feedback = \<lparr> strengths = [], improvements = [], suggestions = [], specificTips = [] \<rparr>,
       detailedAnalysis = \<lparr> speechPattern = [], contentQuality = [],
         professionalPresence = [], improvementPlan = [] \<rparr>,
       aiPowered = False, audioUrl = None \<rparr>"

definition interview_session_scoring :: "number \<Rightarrow> InterviewSession" where
  \<comment> \<open>a well-formed record of the basic tracker with the given overall score\<close>
  "interview_session_scoring x =
     \<lparr> InterviewSession.id_field = ''s1'',
       InterviewSession.date = ''2024-01-01T00:00:00.000Z'',
       InterviewSession.duration = 60,
       InterviewSession.transcript = ''An answer.'',
       InterviewSession.overallScore = x,
       InterviewSession.metrics = \<lparr> wordsPerMinute = 120, fillerWords = 0, confidenceScore = x,
         clarityScore = x, professionalismScore = x, relevanceScore = x \<rparr>,
       InterviewSession.aiPowered = False,
       InterviewSession.questionType = None \<rparr>"

definition mean_score :: "DetailedSession list \<Rightarrow> number" where
  \<comment> \<open>the mean overall score of a non-empty list of records\<close>
  "mean_score xs = sum_of overallScore xs / of_nat (length xs)"

definition claimed_improvementTrend :: "DetailedSession list \<Rightarrow> int" where
  \<comment> \<open>the trend as the specification words it: the mean of the last quarter minus the
      mean of the quarter directly before it, rounded; 0 below four records\<close>
  "claimed_improvementTrend sessions =
     (let n = length sessions; q = n div 4 in
      if n < 4 then 0
      else Math_round (mean_score (drop (n - q) sessions)
                       - mean_score (take q (drop (n - 2 * q) sessions))))"

definition stamp_basic :: "InterviewSession \<times> string \<times> string \<Rightarrow> InterviewSession" where
  \<comment> \<open>the record \<open>saveSession\<close> stores for an input, an id and a date\<close>
  "stamp_basic a =
     (case a of (session, newId, now) \<Rightarrow>
        session\<lparr>InterviewSession.id_field := newId, InterviewSession.date := now\<rparr>)"

definition save_all_basic ::
  "(InterviewSession \<times> string \<times> string) list \<Rightarrow> InterviewSession Browser \<Rightarrow> InterviewSession Browser" where
  \<comment> \<open>one \<open>saveSession\<close> per input, from the left\<close>
  "save_all_basic inputs w =
     foldl (\<lambda>w a. case a of (session, newId, now) \<Rightarrow> saveSession session newId now w) w inputs"

definition stamp_detailed :: "DetailedSession \<times> string \<times> string \<Rightarrow> DetailedSession" where
  "stamp_detailed a =
     (case a of (session, newId, now) \<Rightarrow> session\<lparr>id_field := newId, date := now\<rparr>)"

definition save_all_detailed ::
  "(DetailedSession \<times> string \<times> string) list \<Rightarrow> DetailedSession Browser \<Rightarrow> DetailedSession Browser" where
  "save_all_detailed inputs w =
     foldl (\<lambda>w a. case a of (session, newId, now) \<Rightarrow> saveDetailedSession session newId now w)
       w inputs"


definition sample_inputs_basic :: "nat \<Rightarrow> (InterviewSession \<times> string \<times> string) list" where
  \<comment> \<open>\<open>n\<close> inputs of \<open>saveSession\<close>, numbered from 1 in their scores and ids\<close>
  "sample_inputs_basic n =
     map (\<lambda>k. (interview_session_scoring (of_nat k), toString_nat k, ''2024-01-01T00:00:00.000Z''))
       [1..<Suc n]"

definition sample_inputs_detailed :: "nat \<Rightarrow> (DetailedSession \<times> string \<times> string) list" where
  "sample_inputs_detailed n =
     map (\<lambda>k. (detailed_session_scoring (of_nat k), toString_nat k, ''2024-01-01T00:00:00.000Z''))
       [1..<Suc n]"

definition two_session_log :: "InterviewSession list" where
  \<comment> \<open>two records of the basic tracker whose metrics rank differently than their means\<close>
  "two_session_log =
     [(interview_session_scoring 75)\<lparr> InterviewSession.metrics :=
         \<lparr> wordsPerMinute = 120, fillerWords = 0, confidenceScore = 60,
           clarityScore = 90, professionalismScore = 70, relevanceScore = 80 \<rparr> \<rparr>,
      (interview_session_scoring 65)\<lparr> InterviewSession.metrics :=
         \<lparr> wordsPerMinute = 110, fillerWords = 2, confidenceScore = 90,
           clarityScore = 20, professionalismScore = 100, relevanceScore = 50 \<rparr> \<rparr>]"

definition last_n :: "nat \<Rightarrow> 'a list \<Rightarrow> 'a list" where
  "last_n k xs = drop (length xs - k) xs"

definition by_average_desc :: "string \<times> number \<Rightarrow> string \<times> number \<Rightarrow> bool" where
  \<comment> \<open>the order \<open>sortedAreas\<close> is to have: the earlier entry has the greater average\<close>
  "by_average_desc p q = (snd q \<le> snd p)"


section \<open>Properties of the analysis engine\<close>

lemma Math_round_of_int: "Math_round (of_int n) = n"
  by (simp add: Math_round_def floor_eq_iff)

lemma Math_round_numeral: "Math_round (numeral k) = numeral k"
  using Math_round_of_int [of "numeral k"] by simp

lemma Math_round_capped:
  assumes "0 \<le> x"
  shows "0 \<le> Math_round (min x 100) \<and> Math_round (min x 100) \<le> 100"
proof -
  have lo: "(0::rat) \<le> min x 100 + 1 / 2" using assms by simp
  have hi: "min x 100 + 1 / 2 < (101::rat)" by simp
  have "\<lfloor>min x 100 + 1 / 2\<rfloor> < (101::int)"
    using hi by (simp add: floor_less_iff)
  moreover have "(0::int) \<le> \<lfloor>min x 100 + 1 / 2\<rfloor>"
    using lo by simp
  ultimately show ?thesis by (simp add: Math_round_def)
qed

lemma confidence_raw_nonneg: "0 \<le> confidence_raw t"
  by (simp add: confidence_raw_def Let_def)

lemma clarity_raw_nonneg: "0 \<le> clarity_raw t"
  by (simp add: clarity_raw_def Let_def)

lemma professionalism_raw_nonneg: "0 \<le> professionalism_raw t"
  by (simp add: professionalism_raw_def)

lemma relevance_raw_nonneg: "0 \<le> relevance_raw t"
  by (simp add: relevance_raw_def)

lemma in_range_capped: "0 \<le> x \<Longrightarrow> in_range (of_int (Math_round (min x 100)))"
  using Math_round_capped [of x] by (simp add: in_range_def)

text \<open>
  Claim C1. For every transcript, duration and question type, each of the four scores
  returned by the rule-based analysis lies in the inclusive range from 0 to 100: both the
  scores of \<open>createBasicAnalysis\<close> and the scores of \<open>createFallbackAnalysis\<close>.
\<close>

theorem fallback_scores_in_range:
  "in_range (confidenceScore (AnalysisResult.metrics (createBasicAnalysis t d q))) \<and>
   in_range (clarityScore (AnalysisResult.metrics (createBasicAnalysis t d q))) \<and>
   in_range (professionalismScore (AnalysisResult.metrics (createBasicAnalysis t d q))) \<and>
   in_range (relevanceScore (AnalysisResult.metrics (createBasicAnalysis t d q))) \<and>
   in_range (confidenceScore (AnalysisResult.metrics (createFallbackAnalysis d q))) \<and>
   in_range (clarityScore (AnalysisResult.metrics (createFallbackAnalysis d q))) \<and>
   in_range (professionalismScore (AnalysisResult.metrics (createFallbackAnalysis d q))) \<and>
   in_range (relevanceScore (AnalysisResult.metrics (createFallbackAnalysis d q)))"
proof -
  have basic:
    "in_range (confidenceScore (AnalysisResult.metrics (createBasicAnalysis t d q)))"
    "in_range (clarityScore (AnalysisResult.metrics (createBasicAnalysis t d q)))"
    "in_range (professionalismScore (AnalysisResult.metrics (createBasicAnalysis t d q)))"
    "in_range (relevanceScore (AnalysisResult.metrics (createBasicAnalysis t d q)))"
    by (simp_all add: createBasicAnalysis_def Let_def in_range_capped
          confidence_raw_nonneg clarity_raw_nonneg professionalism_raw_nonneg
          relevance_raw_nonneg)
  have none:
    "in_range (confidenceScore (AnalysisResult.metrics (createFallbackAnalysis d q)))"
    "in_range (clarityScore (AnalysisResult.metrics (createFallbackAnalysis d q)))"
    "in_range (professionalismScore (AnalysisResult.metrics (createFallbackAnalysis d q)))"
    "in_range (relevanceScore (AnalysisResult.metrics (createFallbackAnalysis d q)))"
    by (simp_all add: createFallbackAnalysis_def in_range_def)
  from basic none show ?thesis by simp
qed

lemma trim_whitespace_only:
  assumes "\<forall>c \<in> set t. isWhiteSpace c"
  shows "trim t = []"
proof -
  have front: "dropWhile isWhiteSpace t = []" using assms by (induction t) simp_all
  show ?thesis unfolding trim_def front by simp
qed

text \<open>
  Claim C4. For every transcript that is empty or consists of white space only, and for
  every duration, question type and environment (configured or not, whatever the remote
  client would answer), \<open>analyzeInterview\<close> returns the no-content result of
  \<open>createFallbackAnalysis\<close> and does nothing else: no console line, no request to the remote
  client. In that result the six numeric metrics are 0, \<open>aiPowered\<close> is false, the strengths
  are exactly "Recording session completed", and the improvements and suggestions are the
  fixed no-audio and check-microphone lists (the last suggestion names the question type
  when one is given).
\<close>

theorem analyzeInterview_no_content:
  assumes "\<forall>c \<in> set t. isWhiteSpace c"
  shows "fst (analyzeInterview env t d q) = [] \<and>
         snd (analyzeInterview env t d q) = createFallbackAnalysis d q \<and>
         AnalysisResult.metrics (snd (analyzeInterview env t d q)) =
           \<lparr> wordsPerMinute = 0, fillerWords = 0, confidenceScore = 0, clarityScore = 0,
             professionalismScore = 0, relevanceScore = 0 \<rparr> \<and>
         AnalysisResult.aiPowered (snd (analyzeInterview env t d q)) = False \<and>
         strengths (AnalysisResult.feedback (snd (analyzeInterview env t d q))) =
           [''Recording session completed''] \<and>
         improvements (AnalysisResult.feedback (snd (analyzeInterview env t d q))) =
           [''No audio content detected for analysis'',
            ''Ensure microphone permissions are granted'',
            ''Check if browser supports speech recognition''] \<and>
         suggestions (AnalysisResult.feedback (snd (analyzeInterview env t d q))) =
           [''Test microphone before recording'',
            ''Speak clearly and at normal volume'',
            ''Try recording in a quiet environment'',
            ''Configure AI services for advanced analysis''
              @ (if truthy q then '' of '' @ the q @ '' questions'' else [])]"
proof -
  have "trim t = []" using assms by (rule trim_whitespace_only)
  then have res: "analyzeInterview env t d q = ([], createFallbackAnalysis d q)"
    by (simp add: analyzeInterview_def)
  show ?thesis unfolding res by (simp add: createFallbackAnalysis_def)
qed

theorem analyzeInterview_no_content_witness:
  "analyzeInterview
     \<lparr> apiKey = Some ''sk-live'',
       openaiClient_analyzeInterview = (\<lambda>t d q. Inl ''Network Error'') \<rparr>
     [CHR '' '', CHR 0x09, CHR 0x0A] 30 (Some ''General'')
   = ([], createFallbackAnalysis 30 (Some ''General''))"
proof -
  have ws: "\<forall>c \<in> set [CHR '' '', CHR 0x09, CHR 0x0A]. isWhiteSpace c"
    by (simp add: isWhiteSpace_def)
  show ?thesis
    using analyzeInterview_no_content [OF ws,
      of "\<lparr> apiKey = Some ''sk-live'',
            openaiClient_analyzeInterview = (\<lambda>t d q. Inl ''Network Error'') \<rparr>"
         30 "Some ''General''"]
    by (simp add: prod_eq_iff)
qed

lemma example_words:
  "words_of example_transcript =
     [''i'', ''led'', ''a'', ''team'', ''and'', ''achieved'', ''a'', ''20%'', ''improvement,'',
      ''for'', ''example'', ''on'', ''project'', ''x.'']"
  by code_simp

lemma example_fillers: "fillerWordCount_of (words_of example_transcript) = 0"
  unfolding example_words by code_simp

lemma example_sentences: "sentenceCount_of example_transcript = 1"
  by code_simp

lemma example_hasExamples: "hasExamples_of example_transcript"
  by code_simp

lemma example_hasActionWords: "hasActionWords_of example_transcript"
  by code_simp

lemma example_hasNumbers: "hasNumbers_of example_transcript"
  by code_simp

lemma example_questionWords: "questionWords_of example_transcript = 0"
  by code_simp

lemma example_confidence_raw: "confidence_raw example_transcript = 110"
  by (simp add: confidence_raw_def avgWordsPerSentence_of_def example_words
        example_fillers [unfolded example_words] example_sentences example_hasExamples example_hasActionWords example_hasNumbers)

lemma example_relevance_raw: "relevance_raw example_transcript = 100"
  by (simp add: relevance_raw_def example_words example_questionWords
        example_hasExamples example_hasActionWords example_hasNumbers)

text \<open>
  Claim C8. On the transcript "I led a team and achieved a 20% improvement, for example on
  project X." with a duration of 60 seconds, \<open>createBasicAnalysis\<close> counts 14 words, gives
  14 words per minute and no filler word, finds examples, action words and numbers, and
  returns a confidence score of 100 (the sum 50 + 15 + 10 + 10 + 15 + 10 = 110, capped) and
  a relevance score of 100 (50 + 20 + 15 + 10 + 5, with no bonus for the word count, which
  is not above 50).
\<close>

theorem example_scenario:
  "length (words_of example_transcript) = 14 \<and>
   wordsPerMinute (AnalysisResult.metrics (createBasicAnalysis example_transcript 60 q)) = 14 \<and>
   fillerWords (AnalysisResult.metrics (createBasicAnalysis example_transcript 60 q)) = 0 \<and>
   hasExamples_of example_transcript \<and>
   hasActionWords_of example_transcript \<and>
   hasNumbers_of example_transcript \<and>
   confidence_raw example_transcript = 50 + 15 + 10 + 10 + 15 + 10 \<and>
   confidenceScore (AnalysisResult.metrics (createBasicAnalysis example_transcript 60 q)) = 100 \<and>
   \<not> 50 < length (words_of example_transcript) \<and>
   relevance_raw example_transcript = 50 + 20 + 15 + 10 + 5 \<and>
   relevanceScore (AnalysisResult.metrics (createBasicAnalysis example_transcript 60 q)) = 100"
proof -
  have n: "length (words_of example_transcript) = 14"
    by (simp add: example_words)
  have wpm: "wordsPerMinute (AnalysisResult.metrics (createBasicAnalysis example_transcript 60 q)) = 14"
    by (simp add: createBasicAnalysis_def Let_def n Math_round_numeral)
  have fw: "fillerWords (AnalysisResult.metrics (createBasicAnalysis example_transcript 60 q)) = 0"
    by (simp add: createBasicAnalysis_def Let_def example_fillers)
  have conf: "confidenceScore (AnalysisResult.metrics (createBasicAnalysis example_transcript 60 q)) = 100"
    by (simp add: createBasicAnalysis_def Let_def example_confidence_raw Math_round_numeral)
  have rel: "relevanceScore (AnalysisResult.metrics (createBasicAnalysis example_transcript 60 q)) = 100"
    by (simp add: createBasicAnalysis_def Let_def example_relevance_raw Math_round_numeral)
  show ?thesis
    using n wpm fw conf rel example_hasExamples example_hasActionWords example_hasNumbers
      example_confidence_raw example_relevance_raw
    by simp
qed

section \<open>Properties of the trackers\<close>

subsection \<open>Slices\<close>

lemma slice_last: "0 < n \<Longrightarrow> slice (- n) None xs = drop (length xs - nat n) xs"
  by (auto simp: slice_def Let_def max_def nat_diff_distrib' intro!: arg_cong2[where f=drop])

lemma slice_last_nonempty:
  assumes "0 < n" "xs \<noteq> []"
  shows "slice (- n) None xs \<noteq> []"
proof -
  have "0 < length xs" using assms(2) by simp
  moreover have "0 < nat n" using assms(1) by simp
  ultimately have "length xs - nat n < length xs" by arith
  then show ?thesis using assms(1) by (simp add: slice_last)
qed

lemma slice_from: "slice (int k) None xs = drop k xs"
  by (auto simp: slice_def Let_def min_def)

lemma slice_upto: "slice 0 (Some (int k)) xs = take k xs"
  by (auto simp: slice_def Let_def min_def)

lemma slice_between: "slice (int j) (Some (int k)) xs = take (k - j) (drop j xs)"
  by (auto simp: slice_def Let_def min_def nat_diff_distrib')

subsection \<open>The self-comparing badge rule\<close>

lemma list_all_False: "list_all (\<lambda>s. False) ys = (ys = [])"
  by (cases ys) simp_all

lemma consistentImprover_iff: "consistentImprover sessions = (sessions = [])"
proof (cases "sessions = []")
  case True
  then show ?thesis by (simp add: consistentImprover_def slice_def)
next
  case False
  then have "slice (- 5) None sessions \<noteq> []" by (simp add: slice_last_nonempty)
  then show ?thesis using False by (simp add: consistentImprover_def list_all_False)
qed

text \<open>
  Claim C2 says that the "Consistent Improver" badge is awarded on every log of five or
  more records. The code departs from it. The rule is meant to detect scores that improve
  over the last five sessions, but it compares each record's overall score with itself
  under a strict \<open>>\<close>, which no record satisfies. On a stored log of five records scoring
  60, 65, 70, 75 and 80, where the badge is due, \<open>calculateAchievements\<close> and
  \<open>getAdvancedStats\<close> return the badge "Committed Practicer" alone.
\<close>

theorem consistent_improver_withheld_on_rising_scores:
  "calculateAchievements (map detailed_session_scoring [60, 65, 70, 75, 80])
     = [''Committed Practicer''] \<and>
   achievementBadges (fst (getAdvancedStats
      \<lparr> localStorage = [enhanced_storageKey \<mapsto>
           Json_array (map detailed_session_scoring [60, 65, 70, 75, 80])],
        console = [] \<rparr>)) = [''Committed Practicer'']"
proof -
  have badges: "calculateAchievements (map detailed_session_scoring [60, 65, 70, 75, 80])
                  = [''Committed Practicer'']"
    by (simp add: calculateAchievements_def consistentImprover_def slice_def
          detailed_session_scoring_def)
  have log: "fst (enhanced_getAllSessions
      \<lparr> localStorage = [enhanced_storageKey \<mapsto>
           Json_array (map detailed_session_scoring [60, 65, 70, 75, 80])],
        console = [] \<rparr>) = map detailed_session_scoring [60, 65, 70, 75, 80]"
    by (simp add: enhanced_getAllSessions_def load_sessions_def getItem_def)
  have "achievementBadges (fst (getAdvancedStats
      \<lparr> localStorage = [enhanced_storageKey \<mapsto>
           Json_array (map detailed_session_scoring [60, 65, 70, 75, 80])],
        console = [] \<rparr>))
      = calculateAchievements (map detailed_session_scoring [60, 65, 70, 75, 80])"
    using log by (simp add: getAdvancedStats_def split_beta)
  then show ?thesis using badges by simp
qed

text \<open>
  The extent of the defect: the condition of the rule holds for the empty list only, so
  the badge is withheld on every log that has a record.
\<close>

lemma consistent_improver_defect_extent:
  "(''Consistent Improver'' \<in> set (calculateAchievements sessions)) = (sessions = [])"
  by (auto simp add: calculateAchievements_def consistentImprover_iff)

subsection \<open>The quarter trend\<close>

lemma Math_round_diff_int: "Math_round (of_int a - of_int b) = a - b"
  using Math_round_of_int [of "a - b"] by simp

lemma calculateAverageScore_nonempty:
  "xs \<noteq> [] \<Longrightarrow> calculateAverageScore xs = Some (Math_round (mean_score xs))"
  by (simp add: calculateAverageScore_def mean_score_def)

text \<open>
  Claim C3, as stated, fails: on four records scoring 0, 10, 50 and 100 the code compares
  the last record with the second one and returns 90, while the last quarter minus the
  quarter directly before it is 50.
\<close>

theorem improvementTrend_counterexample:
  "calculateImprovementTrend (map detailed_session_scoring [0, 10, 50, 100]) = Some 90 \<and>
   claimed_improvementTrend (map detailed_session_scoring [0, 10, 50, 100]) = 50"
  by (simp add: calculateImprovementTrend_def calculateAverageScore_def slice_def
        claimed_improvementTrend_def mean_score_def sum_of_def Math_round_numeral
        detailed_session_scoring_def Let_def)

text \<open>
  Claim C3, amended. For every session log of length \<open>n\<close> at least 4, with
  \<open>q = floor(n / 4)\<close>, the trend of the enhanced tracker is the rounded mean overall score
  of the last \<open>q\<close> records minus the rounded mean overall score of the records at positions
  \<open>q\<close> to \<open>2q - 1\<close> counted from the oldest (the second quarter of the log); each mean is
  rounded before the subtraction. For a log of fewer than 4 records the trend is 0. The
  result is always a number.
\<close>

theorem improvementTrend_quarters:
  "calculateImprovementTrend sessions =
     Some (if length sessions < 4 then 0
           else Math_round (mean_score (drop (length sessions - length sessions div 4) sessions))
                - Math_round (mean_score (take (length sessions div 4)
                                            (drop (length sessions div 4) sessions))))"
proof (cases "length sessions < 4")
  case True
  then show ?thesis by (simp add: calculateImprovementTrend_def)
next
  case False
  define q where "q = length sessions div 4"
  have q: "0 < q" "2 * q \<le> length sessions" using False by (simp_all add: q_def)
  have recent: "slice (- int q) None sessions = drop (length sessions - q) sessions"
    using q(1) by (simp add: slice_last)
  have earlier: "slice (int q) (Some (int q * 2)) sessions = take q (drop q sessions)"
    using slice_between [of q "2 * q" sessions] by (simp add: mult.commute)
  have ne1: "drop (length sessions - q) sessions \<noteq> []" using q by simp
  have ne2: "take q (drop q sessions) \<noteq> []" using q by simp
  show ?thesis
    using False
    by (simp add: calculateImprovementTrend_def Let_def q_def [symmetric] recent earlier
          calculateAverageScore_nonempty [OF ne1] calculateAverageScore_nonempty [OF ne2]
          Math_round_diff_int)
qed

subsection \<open>Reading the store\<close>

lemma load_sessions_store: "localStorage (snd (load_sessions key msg w)) = localStorage w"
  by (simp add: load_sessions_def getItem_def emit_def split: option.splits stored.splits)

lemma load_sessions_setItem:
  "fst (load_sessions key msg (emit e (setItem key (Json_array xs) w))) = xs"
  by (simp add: load_sessions_def getItem_def emit_def setItem_def)

lemma load_sessions_removeItem:
  "load_sessions key msg (emit e (removeItem key w)) = ([], emit e (removeItem key w))"
  by (simp add: load_sessions_def getItem_def emit_def removeItem_def)

text \<open>
  Claim C6. When the key of a tracker is absent from the store, \<open>getAllSessions\<close> returns
  the empty list and changes nothing. When the key holds a text that is not parseable as
  JSON, \<open>getAllSessions\<close> returns the empty list, leaves the store as it is and writes one
  error line to the console (none for the empty text, which is never parsed). This holds
  for the basic and for the enhanced tracker; the result is a list in every case, no error
  reaches the caller.
\<close>

theorem getAllSessions_absent_or_unparsable:
  "(localStorage w progress_storageKey = None \<longrightarrow> progress_getAllSessions w = ([], w)) \<and>
   (localStorage w progress_storageKey = Some (Text t) \<longrightarrow>
      fst (progress_getAllSessions w) = [] \<and>
      localStorage (snd (progress_getAllSessions w)) = localStorage w \<and>
      console (snd (progress_getAllSessions w)) =
        console w @ (if t = [] then [] else [Console_error ''Error loading progress data:''])) \<and>
   (localStorage v enhanced_storageKey = None \<longrightarrow> enhanced_getAllSessions v = ([], v)) \<and>
   (localStorage v enhanced_storageKey = Some (Text t) \<longrightarrow>
      fst (enhanced_getAllSessions v) = [] \<and>
      localStorage (snd (enhanced_getAllSessions v)) = localStorage v \<and>
      console (snd (enhanced_getAllSessions v)) =
        console v @ (if t = [] then []
                     else [Console_error ''Error loading enhanced progress data:'']))"
  by (simp add: progress_getAllSessions_def enhanced_getAllSessions_def load_sessions_def
        getItem_def emit_def)

theorem getAllSessions_absent_or_unparsable_witness:
  "progress_getAllSessions \<lparr> localStorage = Map.empty, console = [] \<rparr>
     = ([], \<lparr> localStorage = Map.empty, console = [] \<rparr>) \<and>
   fst (progress_getAllSessions
          \<lparr> localStorage = [progress_storageKey \<mapsto> Text ''[{id:''], console = [] \<rparr>) = [] \<and>
   console (snd (progress_getAllSessions
          \<lparr> localStorage = [progress_storageKey \<mapsto> Text ''[{id:''], console = [] \<rparr>))
     = [Console_error ''Error loading progress data:''] \<and>
   enhanced_getAllSessions \<lparr> localStorage = Map.empty, console = [] \<rparr>
     = ([], \<lparr> localStorage = Map.empty, console = [] \<rparr>) \<and>
   fst (enhanced_getAllSessions
          \<lparr> localStorage = [enhanced_storageKey \<mapsto> Text ''[{id:''], console = [] \<rparr>) = [] \<and>
   console (snd (enhanced_getAllSessions
          \<lparr> localStorage = [enhanced_storageKey \<mapsto> Text ''[{id:''], console = [] \<rparr>))
     = [Console_error ''Error loading enhanced progress data:'']"
  using
    getAllSessions_absent_or_unparsable
      [of "\<lparr> localStorage = Map.empty, console = [] \<rparr>" "[]"
          "\<lparr> localStorage = Map.empty, console = [] \<rparr>"]
    getAllSessions_absent_or_unparsable
      [of "\<lparr> localStorage = [progress_storageKey \<mapsto> Text ''[{id:''], console = [] \<rparr>"
          "''[{id:''"
          "\<lparr> localStorage = [enhanced_storageKey \<mapsto> Text ''[{id:''], console = [] \<rparr>"]
  by simp

subsection \<open>Appending with eviction\<close>

lemma last_n_absorb: "last_n k (last_n k ys @ zs) = last_n k (ys @ zs)"
proof -
  have "length ys + length zs - (length ys - k + k) + (length ys - k)
        = length ys + length zs - k"
    by arith
  then show ?thesis by (simp add: last_n_def)
qed

lemma length_last_n: "length (last_n k xs) = min (length xs) k"
  by (simp add: last_n_def)

lemma last_n_short: "length xs \<le> k \<Longrightarrow> last_n k xs = xs"
  by (simp add: last_n_def)

lemma saveSession_log:
  "fst (progress_getAllSessions (saveSession session newId now w)) =
     last_n 50 (fst (progress_getAllSessions w) @ [stamp_basic (session, newId, now)])"
  by (simp add: saveSession_def progress_getAllSessions_def split_beta Let_def
        load_sessions_setItem slice_last last_n_def stamp_basic_def)

lemma save_all_basic_log:
  assumes "length (fst (progress_getAllSessions w)) \<le> 50"
  shows "fst (progress_getAllSessions (save_all_basic inputs w)) =
           last_n 50 (fst (progress_getAllSessions w) @ map stamp_basic inputs)"
  using assms
proof (induction inputs arbitrary: w)
  case Nil
  then show ?case by (simp add: save_all_basic_def last_n_short)
next
  case (Cons a inputs)
  obtain session newId now where a: "a = (session, newId, now)" by (cases a) auto
  have step: "save_all_basic (a # inputs) w = save_all_basic inputs (saveSession session newId now w)"
    by (simp add: save_all_basic_def a)
  have bound: "length (fst (progress_getAllSessions (saveSession session newId now w))) \<le> 50"
    by (simp add: saveSession_log length_last_n)
  have "fst (progress_getAllSessions (save_all_basic (a # inputs) w))
          = fst (progress_getAllSessions (save_all_basic inputs (saveSession session newId now w)))"
    by (simp only: step)
  also have "\<dots> = last_n 50 (fst (progress_getAllSessions (saveSession session newId now w))
                              @ map stamp_basic inputs)"
    using bound by (rule Cons.IH)
  also have "\<dots> = last_n 50 (fst (progress_getAllSessions w) @ map stamp_basic (a # inputs))"
    by (simp add: saveSession_log a last_n_absorb)
  finally show ?case .
qed

lemma saveDetailedSession_log:
  "fst (enhanced_getAllSessions (saveDetailedSession session newId now w)) =
     last_n 100 (fst (enhanced_getAllSessions w) @ [stamp_detailed (session, newId, now)])"
  by (simp add: saveDetailedSession_def enhanced_getAllSessions_def split_beta Let_def
        load_sessions_setItem slice_last last_n_def stamp_detailed_def maxSessions_def)

lemma save_all_detailed_log:
  assumes "length (fst (enhanced_getAllSessions w)) \<le> 100"
  shows "fst (enhanced_getAllSessions (save_all_detailed inputs w)) =
           last_n 100 (fst (enhanced_getAllSessions w) @ map stamp_detailed inputs)"
  using assms
proof (induction inputs arbitrary: w)
  case Nil
  then show ?case by (simp add: save_all_detailed_def last_n_short)
next
  case (Cons a inputs)
  obtain session newId now where a: "a = (session, newId, now)" by (cases a) auto
  have step: "save_all_detailed (a # inputs) w
                = save_all_detailed inputs (saveDetailedSession session newId now w)"
    by (simp add: save_all_detailed_def a)
  have bound:
    "length (fst (enhanced_getAllSessions (saveDetailedSession session newId now w))) \<le> 100"
    by (simp add: saveDetailedSession_log length_last_n)
  have "fst (enhanced_getAllSessions (save_all_detailed (a # inputs) w))
          = fst (enhanced_getAllSessions
                   (save_all_detailed inputs (saveDetailedSession session newId now w)))"
    by (simp only: step)
  also have "\<dots> = last_n 100
                       (fst (enhanced_getAllSessions (saveDetailedSession session newId now w))
                        @ map stamp_detailed inputs)"
    using bound by (rule Cons.IH)
  also have "\<dots> = last_n 100 (fst (enhanced_getAllSessions w) @ map stamp_detailed (a # inputs))"
    by (simp add: saveDetailedSession_log a last_n_absorb)
  finally show ?case .
qed

lemma progress_cleared: "fst (progress_getAllSessions (progress_clearAllData w)) = []"
  by (simp add: progress_getAllSessions_def progress_clearAllData_def load_sessions_removeItem)

lemma enhanced_cleared: "fst (enhanced_getAllSessions (enhanced_clearAllData w)) = []"
  by (simp add: enhanced_getAllSessions_def enhanced_clearAllData_def load_sessions_removeItem)

text \<open>
  Claim C5. For both trackers (capacity 50 for the basic one, 100 for the enhanced one):
  after any append, whatever the store held before, the log is no longer than the
  capacity; after \<open>N\<close> appends to an empty log the log is the last \<open>min N cap\<close> of the
  appended records, in the order of their insertion, so its length is \<open>min N cap\<close>; and
  after \<open>cap + 1\<close> appends it is exactly the records 2 to \<open>cap + 1\<close> in that order.
\<close>

theorem session_log_bounded_fifo:
  "length (fst (progress_getAllSessions (saveSession session newId now w))) \<le> 50 \<and>
   fst (progress_getAllSessions (save_all_basic inputs (progress_clearAllData w)))
     = drop (length inputs - 50) (map stamp_basic inputs) \<and>
   length (fst (progress_getAllSessions (save_all_basic inputs (progress_clearAllData w))))
     = min (length inputs) 50 \<and>
   (length inputs = 51 \<longrightarrow>
      fst (progress_getAllSessions (save_all_basic inputs (progress_clearAllData w)))
        = tl (map stamp_basic inputs)) \<and>
   length (fst (enhanced_getAllSessions (saveDetailedSession session' newId now v))) \<le> 100 \<and>
   fst (enhanced_getAllSessions (save_all_detailed inputs' (enhanced_clearAllData v)))
     = drop (length inputs' - 100) (map stamp_detailed inputs') \<and>
   length (fst (enhanced_getAllSessions (save_all_detailed inputs' (enhanced_clearAllData v))))
     = min (length inputs') 100 \<and>
   (length inputs' = 101 \<longrightarrow>
      fst (enhanced_getAllSessions (save_all_detailed inputs' (enhanced_clearAllData v)))
        = tl (map stamp_detailed inputs'))"
proof -
  have b1: "length (fst (progress_getAllSessions (saveSession session newId now w))) \<le> 50"
    by (simp add: saveSession_log length_last_n)
  have b2: "fst (progress_getAllSessions (save_all_basic inputs (progress_clearAllData w)))
              = drop (length inputs - 50) (map stamp_basic inputs)"
    by (simp add: save_all_basic_log progress_cleared last_n_def)
  have e1: "length (fst (enhanced_getAllSessions (saveDetailedSession session' newId now v))) \<le> 100"
    by (simp add: saveDetailedSession_log length_last_n)
  have e2: "fst (enhanced_getAllSessions (save_all_detailed inputs' (enhanced_clearAllData v)))
              = drop (length inputs' - 100) (map stamp_detailed inputs')"
    by (simp add: save_all_detailed_log enhanced_cleared last_n_def)
  show ?thesis
    unfolding b2 e2 using b1 e1 by (simp add: drop_Suc min_def)
qed

lemma sample_ids_basic:
  "map InterviewSession.id_field (tl (map stamp_basic (sample_inputs_basic n)))
     = map toString_nat [2..<Suc n]"
  by (simp add: sample_inputs_basic_def stamp_basic_def map_tl [symmetric] o_def numeral_2_eq_2
        del: upt_Suc)

lemma sample_ids_detailed:
  "map DetailedSession.id_field (tl (map stamp_detailed (sample_inputs_detailed n)))
     = map toString_nat [2..<Suc n]"
  by (simp add: sample_inputs_detailed_def stamp_detailed_def map_tl [symmetric] o_def numeral_2_eq_2
        del: upt_Suc)

theorem session_log_bounded_fifo_witness:
  "fst (progress_getAllSessions
          (save_all_basic (sample_inputs_basic 51)
             (progress_clearAllData \<lparr> localStorage = Map.empty, console = [] \<rparr>)))
     = tl (map stamp_basic (sample_inputs_basic 51)) \<and>
   map InterviewSession.id_field (fst (progress_getAllSessions
          (save_all_basic (sample_inputs_basic 51)
             (progress_clearAllData \<lparr> localStorage = Map.empty, console = [] \<rparr>))))
     = map toString_nat [2..<52] \<and>
   fst (enhanced_getAllSessions
          (save_all_detailed (sample_inputs_detailed 101)
             (enhanced_clearAllData \<lparr> localStorage = Map.empty, console = [] \<rparr>)))
     = tl (map stamp_detailed (sample_inputs_detailed 101)) \<and>
   map DetailedSession.id_field (fst (enhanced_getAllSessions
          (save_all_detailed (sample_inputs_detailed 101)
             (enhanced_clearAllData \<lparr> localStorage = Map.empty, console = [] \<rparr>))))
     = map toString_nat [2..<102]"
proof -
  have n1: "length (sample_inputs_basic 51) = 51"
    by (simp add: sample_inputs_basic_def)
  have n2: "length (sample_inputs_detailed 101) = 101"
    by (simp add: sample_inputs_detailed_def)
  have r: "fst (progress_getAllSessions
          (save_all_basic (sample_inputs_basic 51)
             (progress_clearAllData \<lparr> localStorage = Map.empty, console = [] \<rparr>)))
     = tl (map stamp_basic (sample_inputs_basic 51)) \<and>
   fst (enhanced_getAllSessions
          (save_all_detailed (sample_inputs_detailed 101)
             (enhanced_clearAllData \<lparr> localStorage = Map.empty, console = [] \<rparr>)))
     = tl (map stamp_detailed (sample_inputs_detailed 101))"
    using n1 n2
      session_log_bounded_fifo
        [where inputs = "sample_inputs_basic 51"
           and w = "\<lparr> localStorage = Map.empty, console = [] \<rparr>"
           and inputs' = "sample_inputs_detailed 101"
           and v = "\<lparr> localStorage = Map.empty, console = [] \<rparr>"]
    by blast
  have s51: "[2..<52] = [2..<Suc 51]" and s101: "[2..<102] = [2..<Suc 101]" by simp_all
  show ?thesis
    using r unfolding s51 s101 by (simp only: sample_ids_basic sample_ids_detailed simp_thms)
qed

subsection \<open>Statistics of the empty log\<close>

text \<open>
  Claim C7. After \<open>clearAllData\<close>, \<open>getAllSessions\<close> returns the empty list, for both
  trackers. On an empty log (after a clear, or whenever \<open>getAllSessions\<close> returns the empty
  list) the basic statistics have 0 sessions, average 0, trend 0 and three empty lists; the
  enhanced statistics have 0 sessions, average 0, trend 0, every list and map empty, and
  the upcoming milestones are exactly "Complete your first interview practice".
\<close>

theorem empty_log_stats:
  "fst (progress_getAllSessions (progress_clearAllData w)) = [] \<and>
   fst (getProgressStats (progress_clearAllData w)) =
     \<lparr> ProgressStats.totalSessions = 0, ProgressStats.averageScore = 0,
       ProgressStats.improvementTrend = 0, strongestAreas = [], weakestAreas = [],
       ProgressStats.recentSessions = [] \<rparr> \<and>
   (fst (progress_getAllSessions w) = [] \<longrightarrow>
      fst (getProgressStats w) =
        \<lparr> ProgressStats.totalSessions = 0, ProgressStats.averageScore = 0,
          ProgressStats.improvementTrend = 0, strongestAreas = [], weakestAreas = [],
          ProgressStats.recentSessions = [] \<rparr>) \<and>
   fst (enhanced_getAllSessions (enhanced_clearAllData v)) = [] \<and>
   fst (getAdvancedStats (enhanced_clearAllData v)) =
     \<lparr> totalSessions = 0, averageScore = Some 0, improvementTrend = Some 0,
       skillBreakdown = [], recommendedFocus = [], achievementBadges = [],
       recentSessions = [], sessionsByType = Map.empty,
       progressMilestones =
         \<lparr> reached = [], upcoming = [''Complete your first interview practice''] \<rparr> \<rparr> \<and>
   (fst (enhanced_getAllSessions v) = [] \<longrightarrow>
      fst (getAdvancedStats v) =
        \<lparr> totalSessions = 0, averageScore = Some 0, improvementTrend = Some 0,
          skillBreakdown = [], recommendedFocus = [], achievementBadges = [],
          recentSessions = [], sessionsByType = Map.empty,
          progressMilestones =
            \<lparr> reached = [], upcoming = [''Complete your first interview practice''] \<rparr> \<rparr>)"
proof -
  have basic: "fst (getProgressStats u) =
        \<lparr> ProgressStats.totalSessions = 0, ProgressStats.averageScore = 0,
          ProgressStats.improvementTrend = 0, strongestAreas = [], weakestAreas = [],
          ProgressStats.recentSessions = [] \<rparr>"
    if "fst (progress_getAllSessions u) = []" for u
    using that by (simp add: getProgressStats_def split_beta)
  have enhanced: "fst (getAdvancedStats u) =
        \<lparr> totalSessions = 0, averageScore = Some 0, improvementTrend = Some 0,
          skillBreakdown = [], recommendedFocus = [], achievementBadges = [],
          recentSessions = [], sessionsByType = Map.empty,
          progressMilestones =
            \<lparr> reached = [], upcoming = [''Complete your first interview practice''] \<rparr> \<rparr>"
    if "fst (enhanced_getAllSessions u) = []" for u
    using that by (simp add: getAdvancedStats_def split_beta getEmptyStats_def)
  show ?thesis
    using basic [of w] basic [OF progress_cleared [of w]]
      enhanced [of v] enhanced [OF enhanced_cleared [of v]]
    by (simp add: progress_cleared enhanced_cleared)
qed

theorem empty_log_stats_witness:
  "ProgressStats.totalSessions
     (fst (getProgressStats
        \<lparr> localStorage = [progress_storageKey \<mapsto> Json_array []], console = [] \<rparr>)) = 0 \<and>
   upcoming (progressMilestones
     (fst (getAdvancedStats
        \<lparr> localStorage = [enhanced_storageKey \<mapsto> Json_array []], console = [] \<rparr>)))
     = [''Complete your first interview practice'']"
proof -
  have b: "fst (progress_getAllSessions
             \<lparr> localStorage = [progress_storageKey \<mapsto> Json_array []], console = [] \<rparr>) = []"
    by (simp add: progress_getAllSessions_def load_sessions_def getItem_def)
  have e: "fst (enhanced_getAllSessions
             \<lparr> localStorage = [enhanced_storageKey \<mapsto> Json_array []], console = [] \<rparr>) = []"
    by (simp add: enhanced_getAllSessions_def load_sessions_def getItem_def)
  show ?thesis
    using b e
      empty_log_stats
        [of "\<lparr> localStorage = [progress_storageKey \<mapsto> Json_array []], console = [] \<rparr>"
            "\<lparr> localStorage = [enhanced_storageKey \<mapsto> Json_array []], console = [] \<rparr>"]
    by simp
qed

subsection \<open>Strongest and weakest areas\<close>

lemma length_insert_cmp: "length (insert_cmp cmp x ys) = Suc (length ys)"
  by (induction ys) simp_all

lemma length_Array_sort: "length (Array_sort cmp xs) = length xs"
  by (induction xs) (simp_all add: Array_sort_def length_insert_cmp)

lemma set_insert_cmp: "set (insert_cmp cmp x ys) = insert x (set ys)"
  by (induction ys) auto

lemma set_Array_sort: "set (Array_sort cmp xs) = set xs"
  by (induction xs) (simp_all add: Array_sort_def set_insert_cmp)

lemma sorted_insert_cmp:
  assumes "sorted_wrt by_average_desc ys"
  shows "sorted_wrt by_average_desc (insert_cmp (\<lambda>(_, a) (_, b). b - a) x ys)"
  using assms
proof (induction ys)
  case Nil
  then show ?case by simp
next
  case (Cons y ys)
  show ?case
  proof (cases "snd y \<le> snd x")
    case True
    then have "\<forall>z \<in> set ys. snd z \<le> snd x"
      using Cons.prems by (auto simp: by_average_desc_def)
    then show ?thesis
      using True Cons.prems by (auto simp: by_average_desc_def split_beta)
  next
    case False
    then show ?thesis
      using Cons by (auto simp: by_average_desc_def split_beta set_insert_cmp)
  qed
qed

lemma sorted_Array_sort:
  "sorted_wrt by_average_desc (Array_sort (\<lambda>(_, a) (_, b). b - a) xs)"
  by (induction xs) (simp_all add: Array_sort_def sorted_insert_cmp)

lemma sortedAreas_shape:
  "\<exists>a b c d. sortedAreas sessions = [a, b, c, d] \<and>
       set [a, b, c, d] = set (avgMetrics sessions) \<and>
       snd b \<le> snd a \<and> snd c \<le> snd b \<and> snd d \<le> snd c"
proof -
  have len: "length (sortedAreas sessions) = 4"
    by (simp add: sortedAreas_def length_Array_sort avgMetrics_def Let_def)
  then obtain a b c d where abcd: "sortedAreas sessions = [a, b, c, d]"
    by (auto simp: length_Suc_conv eval_nat_numeral)
  have "set (sortedAreas sessions) = set (avgMetrics sessions)"
    by (simp add: sortedAreas_def set_Array_sort)
  moreover have "sorted_wrt by_average_desc (sortedAreas sessions)"
    by (simp add: sortedAreas_def sorted_Array_sort)
  ultimately show ?thesis
    unfolding abcd by (auto simp: by_average_desc_def)
qed

lemma four_names:
  assumes "set [a, b, c, d] = set (avgMetrics sessions)"
  shows "{fst a, fst b, fst c, fst d} = {''confidence'', ''clarity'', ''professionalism'', ''relevance''}"
proof -
  have "fst ` set [a, b, c, d] = fst ` set (avgMetrics sessions)" using assms by simp
  then show ?thesis by (simp add: avgMetrics_def Let_def)
qed

lemma four_names_distinct:
  assumes "{x1, x2, x3, x4} = {''confidence'', ''clarity'', ''professionalism'', ''relevance''}"
  shows "distinct [x1, x2, x3, x4 :: string]"
proof -
  have "card {x1, x2, x3, x4} = 4" unfolding assms by simp
  then have "card (set [x1, x2, x3, x4]) = length [x1, x2, x3, x4]" by simp
  then show ?thesis by (rule card_distinct)
qed

lemma foldl_add_sum_list:
  "foldl (\<lambda>sum s. sum + f s) a xs = a + sum_list (map f xs)" for a :: rat
  by (induction xs arbitrary: a) (simp_all add: add.assoc)

lemma sum_of_sum_list: "sum_of f xs = sum_list (map f xs)"
  by (simp add: sum_of_def foldl_add_sum_list)

lemma avgMetrics_means:
  "avgMetrics sessions =
     [(''confidence'',
        sum_list (map (\<lambda>s. confidenceScore (InterviewSession.metrics s)) sessions)
          / of_nat (length sessions)),
      (''clarity'',
        sum_list (map (\<lambda>s. clarityScore (InterviewSession.metrics s)) sessions)
          / of_nat (length sessions)),
      (''professionalism'',
        sum_list (map (\<lambda>s. professionalismScore (InterviewSession.metrics s)) sessions)
          / of_nat (length sessions)),
      (''relevance'',
        sum_list (map (\<lambda>s. relevanceScore (InterviewSession.metrics s)) sessions)
          / of_nat (length sessions))]"
  by (simp add: avgMetrics_def Let_def sum_of_sum_list)

text \<open>
  Claim C9. For every non-empty session log, the basic statistics list exactly two
  strongest and two weakest areas. \<open>sortedAreas\<close> holds the four pairs of a metric name
  (confidence, clarity, professionalism, relevance) and the mean of that metric over all
  sessions of the log (the sum of the metric over the sessions, divided by their number),
  in descending order of the mean; the strongest areas are the names of its first two
  entries and the weakest areas the names of its last two. The four names are distinct, so
  no name is in both lists.
\<close>

theorem strongest_weakest_areas:
  assumes "fst (progress_getAllSessions w) = sessions" and "sessions \<noteq> []"
  shows "\<exists>a b c d.
           sortedAreas sessions = [a, b, c, d] \<and>
           set [a, b, c, d] = set (avgMetrics sessions) \<and>
           set [a, b, c, d] =
             {(''confidence'',
                 sum_list (map (\<lambda>s. confidenceScore (InterviewSession.metrics s)) sessions)
                   / of_nat (length sessions)),
              (''clarity'',
                 sum_list (map (\<lambda>s. clarityScore (InterviewSession.metrics s)) sessions)
                   / of_nat (length sessions)),
              (''professionalism'',
                 sum_list (map (\<lambda>s. professionalismScore (InterviewSession.metrics s)) sessions)
                   / of_nat (length sessions)),
              (''relevance'',
                 sum_list (map (\<lambda>s. relevanceScore (InterviewSession.metrics s)) sessions)
                   / of_nat (length sessions))} \<and>
           snd b \<le> snd a \<and> snd c \<le> snd b \<and> snd d \<le> snd c \<and>
           strongestAreas (fst (getProgressStats w)) = [fst a, fst b] \<and>
           weakestAreas (fst (getProgressStats w)) = [fst c, fst d] \<and>
           {fst a, fst b, fst c, fst d}
             = {''confidence'', ''clarity'', ''professionalism'', ''relevance''} \<and>
           distinct [fst a, fst b, fst c, fst d] \<and>
           set (strongestAreas (fst (getProgressStats w)))
             \<inter> set (weakestAreas (fst (getProgressStats w))) = {}"
proof -
  obtain a b c d where shape:
    "sortedAreas sessions = [a, b, c, d]"
    "set [a, b, c, d] = set (avgMetrics sessions)"
    "snd b \<le> snd a" "snd c \<le> snd b" "snd d \<le> snd c"
    using sortedAreas_shape [of sessions] by blast
  have means: "set [a, b, c, d] =
             {(''confidence'',
                 sum_list (map (\<lambda>s. confidenceScore (InterviewSession.metrics s)) sessions)
                   / of_nat (length sessions)),
              (''clarity'',
                 sum_list (map (\<lambda>s. clarityScore (InterviewSession.metrics s)) sessions)
                   / of_nat (length sessions)),
              (''professionalism'',
                 sum_list (map (\<lambda>s. professionalismScore (InterviewSession.metrics s)) sessions)
                   / of_nat (length sessions)),
              (''relevance'',
                 sum_list (map (\<lambda>s. relevanceScore (InterviewSession.metrics s)) sessions)
                   / of_nat (length sessions))}"
    unfolding shape(2) by (simp add: avgMetrics_means)
  have names: "{fst a, fst b, fst c, fst d}
                 = {''confidence'', ''clarity'', ''professionalism'', ''relevance''}"
    using shape(2) by (rule four_names)
  have dist: "distinct [fst a, fst b, fst c, fst d]"
    using names by (rule four_names_distinct)
  have strong: "strongestAreas (fst (getProgressStats w)) = [fst a, fst b]"
    using assms by (simp add: getProgressStats_def split_beta Let_def shape(1) slice_def)
  have weak: "weakestAreas (fst (getProgressStats w)) = [fst c, fst d]"
    using assms by (simp add: getProgressStats_def split_beta Let_def shape(1) slice_def)
  have disj: "set (strongestAreas (fst (getProgressStats w)))
                \<inter> set (weakestAreas (fst (getProgressStats w))) = {}"
    unfolding strong weak using dist by auto
  show ?thesis
    using shape means names dist strong weak disj by blast
qed

theorem strongest_weakest_areas_witness:
  "strongestAreas (fst (getProgressStats
      \<lparr> localStorage = [progress_storageKey \<mapsto> Json_array two_session_log],
        console = [] \<rparr>)) = [''professionalism'', ''confidence''] \<and>
   weakestAreas (fst (getProgressStats
      \<lparr> localStorage = [progress_storageKey \<mapsto> Json_array two_session_log],
        console = [] \<rparr>)) = [''relevance'', ''clarity''] \<and>
   sortedAreas two_session_log =
     [(''professionalism'', 85), (''confidence'', 75), (''relevance'', 65), (''clarity'', 55)]"
proof -
  define w where "w = \<lparr> localStorage = [progress_storageKey \<mapsto> Json_array two_session_log],
                         console = ([] :: event list) \<rparr>"
  have log: "fst (progress_getAllSessions w) = two_session_log"
    by (simp add: w_def progress_getAllSessions_def load_sessions_def getItem_def)
  have ne: "two_session_log \<noteq> []" by (simp add: two_session_log_def)
  have sorted: "sortedAreas two_session_log =
      [(''professionalism'', 85), (''confidence'', 75), (''relevance'', 65), (''clarity'', 55)]"
    by (simp add: sortedAreas_def avgMetrics_def Array_sort_def sum_of_def two_session_log_def)
  have "strongestAreas (fst (getProgressStats w)) = [''professionalism'', ''confidence''] \<and>
        weakestAreas (fst (getProgressStats w)) = [''relevance'', ''clarity'']"
    using strongest_weakest_areas [OF log ne] sorted by auto
  then show ?thesis using sorted by (simp add: w_def)
qed

subsection \<open>The half trend on a single record\<close>

text \<open>
  Claim C10. For every session log that holds exactly one record, the trend of the basic
  statistics is that record's overall score, rounded, not 0: the half point is 0, the
  average of the empty first half degrades to 0 and the average of the second half is
  the score of the record.
\<close>

theorem single_record_trend:
  assumes "fst (progress_getAllSessions w) = [s]"
  shows "length [s] div 2 = 0 \<and>
         firstHalfAvg [s] = 0 \<and>
         secondHalfAvg [s] = InterviewSession.overallScore s \<and>
         ProgressStats.improvementTrend (fst (getProgressStats w))
           = Math_round (InterviewSession.overallScore s)"
  using assms
  by (simp add: getProgressStats_def split_beta Let_def firstHalfAvg_def secondHalfAvg_def
        slice_def sum_of_def)

theorem single_record_trend_witness:
  "ProgressStats.improvementTrend (fst (getProgressStats
      \<lparr> localStorage = [progress_storageKey \<mapsto> Json_array [interview_session_scoring 80]],
        console = [] \<rparr>)) = 80"
proof -
  have log: "fst (progress_getAllSessions
      \<lparr> localStorage = [progress_storageKey \<mapsto> Json_array [interview_session_scoring 80]],
        console = [] \<rparr>) = [interview_session_scoring 80]"
    by (simp add: progress_getAllSessions_def load_sessions_def getItem_def)
  show ?thesis
    using single_record_trend [OF log]
    by (simp add: interview_session_scoring_def Math_round_numeral)
qed

end
